theory Spec2Isabelle
  imports
    Complex_Main
    "HOL-Library.AList"
    "HOL-Library.Char_ord"
    "HOL-Library.List_Lexorder"
begin

section \<open>The result-distribution pipeline of the NPU object-detection extension\<close>

text \<open>
  A shallow embedding of \<^verbatim>\<open>src/utils.cc\<close>, \<^verbatim>\<open>src/publisher.cpp\<close>,
  \<^verbatim>\<open>src/transports/file_transport.cpp\<close> and the wiring of \<^verbatim>\<open>src/main.cpp\<close>.
  C++ \<^verbatim>\<open>int\<close> values (class ids, counts, box coordinates) are modelled as \<open>int\<close>:
  the code only compares, prints and increments them, and a count is bounded by the
  128 entries of a detection list. A \<^verbatim>\<open>std::string\<close> is a \<open>string\<close> (a list of bytes).
\<close>

subsection \<open>Text helpers of the standard library\<close>

text \<open>\<^verbatim>\<open>std::to_string\<close> on an integer: its decimal digits, with a leading minus sign.\<close>

definition digit_char :: "nat \<Rightarrow> char" where
  "digit_char d = char_of (48 + d)"

fun to_string_nat :: "nat \<Rightarrow> string" where
  "to_string_nat n =
     (if n < 10 then [digit_char n] else to_string_nat (n div 10) @ [digit_char (n mod 10)])"

declare to_string_nat.simps [simp del]

definition to_string :: "int \<Rightarrow> string" where
  "to_string i = (if i < 0 then CHR ''-'' # to_string_nat (nat (- i)) else to_string_nat (nat i))"

subsection \<open>utils.cc: class-name parsing and the class filter\<close>

text \<open>
  \<^verbatim>\<open>std::find(first, last, v)\<close> as the position it returns: the index of the first element
  equal to \<open>v\<close>, or the length of the range (the \<^verbatim>\<open>end()\<close> iterator) when there is none.
\<close>

fun std_find :: "'a list \<Rightarrow> 'a \<Rightarrow> nat" where
  "std_find [] v = 0"
| "std_find (x # xs) v = (if x = v then 0 else Suc (std_find xs v))"

text \<open>\<^verbatim>\<open>isClassSelected\<close> (utils.cc, lines 156-164).\<close>

definition isClassSelected :: "int \<Rightarrow> int list \<Rightarrow> bool" where
  "isClassSelected class_id selected_classes =
     (if selected_classes = [] then True
      else std_find selected_classes class_id \<noteq> length selected_classes)"

text \<open>
  \<^verbatim>\<open>std::isspace\<close> in the C locale: space, and the control characters \<^verbatim>\<open>\t \n \v \f \r\<close>.
\<close>

definition isspace :: "char \<Rightarrow> bool" where
  "isspace c = (of_char c \<in> {32, 9, 10, 11, 12, 13 :: nat})"

text \<open>
  \<^verbatim>\<open>loadCocoClassMapping\<close> (utils.cc, lines 97-123). The labels file is given as what
  the code reads from it: \<open>None\<close> when it cannot be opened, otherwise the lines that
  \<^verbatim>\<open>std::getline\<close> returns. Trailing white space is erased from each line, and every
  line that is then non-empty gets the next class id (a repeated name keeps the later id).
  The \<^verbatim>\<open>unordered_map\<close> is a finite map, kept as an association list read by \<open>map_of\<close>.
\<close>

definition rstrip :: "string \<Rightarrow> string" where
  "rstrip line = rev (dropWhile isspace (rev line))"

fun load_lines :: "string list \<Rightarrow> int \<Rightarrow> (string \<times> int) list \<Rightarrow> (string \<times> int) list" where
  "load_lines [] class_id class_mapping = class_mapping"
| "load_lines (line # rest) class_id class_mapping =
     (let line' = rstrip line in
      if line' \<noteq> [] then load_lines rest (class_id + 1) (AList.update line' class_id class_mapping)
      else load_lines rest class_id class_mapping)"

definition loadCocoClassMapping :: "string list option \<Rightarrow> (string \<times> int) list" where
  "loadCocoClassMapping labels_file =
     (case labels_file of None \<Rightarrow> [] | Some lines \<Rightarrow> load_lines lines 0 [])"

text \<open>
  The loop \<^verbatim>\<open>while (std::getline(ss, class_name, ','))\<close>: the tokens between commas.
  At the end of the stream a token is produced only if at least one character was
  extracted, so a trailing comma yields no empty token.
\<close>

fun getline_tokens :: "string \<Rightarrow> string \<Rightarrow> string list" where
  "getline_tokens cur [] = (if cur = [] then [] else [cur])"
| "getline_tokens cur (c # cs) =
     (if c = CHR '','' then cur # getline_tokens [] cs else getline_tokens (cur @ [c]) cs)"

definition is_blank :: "char \<Rightarrow> bool" where
  "is_blank c = (c = CHR '' '' \<or> c = CHR 0x09)"

text \<open>
  The two \<^verbatim>\<open>erase\<close> calls of \<^verbatim>\<open>parseClassNames\<close>: everything before the first and after
  the last character that is neither a space nor a tab (all of it when there is none).
\<close>

definition trim_blanks :: "string \<Rightarrow> string" where
  "trim_blanks s = rev (dropWhile is_blank (rev (dropWhile is_blank s)))"

fun parse_tokens :: "string list \<Rightarrow> (string \<times> int) list \<Rightarrow> int list \<Rightarrow> int list" where
  "parse_tokens [] class_mapping selected_classes = selected_classes"
| "parse_tokens (tok # rest) class_mapping selected_classes =
     (let class_name = trim_blanks tok in
      if class_name \<noteq> [] then
        (case map_of class_mapping class_name of
           Some class_id \<Rightarrow> parse_tokens rest class_mapping (selected_classes @ [class_id])
         | None \<Rightarrow> parse_tokens rest class_mapping selected_classes)
      else parse_tokens rest class_mapping selected_classes)"

text \<open>\<^verbatim>\<open>parseClassNames\<close> (utils.cc, lines 126-153).\<close>

definition parseClassNames :: "string \<Rightarrow> (string \<times> int) list \<Rightarrow> int list" where
  "parseClassNames classes_str class_mapping =
     (if classes_str = [] then []
      else parse_tokens (getline_tokens [] classes_str) class_mapping [])"

subsection \<open>main.cpp: resolving the class filter\<close>

text \<open>
  Lines 80-112 of \<^verbatim>\<open>main\<close>. \<open>classes_str\<close> is the value of \<^verbatim>\<open>--classes\<close> (empty when the
  flag is absent) and \<open>labels_file\<close> the labels file that the path search settles on.
  The result is \<open>Inl (-1)\<close> where \<^verbatim>\<open>main\<close> returns \<^verbatim>\<open>-1\<close> before any pipeline object is
  built, and otherwise \<open>Inr\<close> of the vector handed to the inference thread.
\<close>

definition ensure_class_0 :: "int list \<Rightarrow> int list" where
  "ensure_class_0 selected_classes =
     (if std_find selected_classes 0 = length selected_classes then selected_classes @ [0]
      else selected_classes)"

definition resolve_selected_classes :: "string \<Rightarrow> string list option \<Rightarrow> int + int list" where
  "resolve_selected_classes classes_str labels_file =
     (if classes_str \<noteq> [] then
        (let class_mapping = loadCocoClassMapping labels_file in
         if class_mapping = [] then Inl (- 1)
         else Inr (ensure_class_0 (parseClassNames classes_str class_mapping)))
      else Inr (ensure_class_0 []))"

subsection \<open>yolo.h: detections\<close>

text \<open>
  A C++ \<^verbatim>\<open>float\<close>, as far as the formatters look at it: a number, one of the two
  infinities, or NaN. The formatters compare a confidence with \<^verbatim>\<open>0.0f\<close> and hand it to
  the JSON library. \<open>float_le_zero x\<close> is the test \<^verbatim>\<open>x <= 0.0f\<close> and \<open>float_gt_zero x\<close> the
  test \<^verbatim>\<open>x > 0.0f\<close>; every comparison with NaN is false.
\<close>

datatype c_float = Finite real | Plus_infinity | Minus_infinity | NaN

fun float_le_zero :: "c_float \<Rightarrow> bool" where
  "float_le_zero (Finite x) = (x \<le> 0)"
| "float_le_zero Plus_infinity = False"
| "float_le_zero Minus_infinity = True"
| "float_le_zero NaN = False"

fun float_gt_zero :: "c_float \<Rightarrow> bool" where
  "float_gt_zero (Finite x) = (0 < x)"
| "float_gt_zero Plus_infinity = True"
| "float_gt_zero Minus_infinity = False"
| "float_gt_zero NaN = False"

text \<open>
  \<^verbatim>\<open>box_rect_t\<close>, \<^verbatim>\<open>object_detect_result\<close> and \<^verbatim>\<open>object_detect_result_list\<close>. The field
  \<^verbatim>\<open>prop\<close> is the confidence, a \<^verbatim>\<open>float\<close>; the field \<^verbatim>\<open>name\<close> holds the text of the C string
  in the \<^verbatim>\<open>char[64]\<close> buffer, and \<open>results\<close> the entries of the fixed array.
\<close>

record box_rect_t =
  left :: int
  top' :: int
  right :: int
  bottom :: int

record object_detect_result =
  box :: box_rect_t
  prop' :: c_float
  cls_id :: int
  name :: string

record object_detect_result_list =
  count :: int
  results :: "object_detect_result list"

text \<open>
  Modelled from the spec: the declaration of \<^verbatim>\<open>InferenceResult\<close> (inference.h) is not
  among the sources. The spec's Result is a capture timestamp, the detections and the
  class filter active when it was produced; the formatters and tests read exactly the
  members \<^verbatim>\<open>timestamp\<close>, \<^verbatim>\<open>detections\<close> and \<^verbatim>\<open>selected_classes\<close>. The time point is kept
  as the \<^verbatim>\<open>time_t\<close> that \<^verbatim>\<open>system_clock::to_time_t\<close> gives for it.
\<close>

record InferenceResult =
  timestamp :: int
  detections :: object_detect_result_list
  selected_classes :: "int list"

text \<open>
  The entries that \<^verbatim>\<open>for (int i = 0; i < result.detections.count; ++i)\<close> visits, in
  order: \<^verbatim>\<open>results[i]\<close> for every \<open>i\<close> below \<open>count\<close> (none when \<open>count\<close> is not positive).
  Reading past the array is undefined in C++ as it is unspecified here.
\<close>

definition visited :: "InferenceResult \<Rightarrow> object_detect_result list" where
  "visited result =
     map (\<lambda>i. results (detections result) ! i) [0 ..< nat (count (detections result))]"

subsection \<open>The JSON library and the hash map, as the formatters use them\<close>

text \<open>
  A \<^verbatim>\<open>nlohmann::json\<close> value. An object is a \<^verbatim>\<open>std::map\<close>: its entries are kept sorted
  by key, and \<^verbatim>\<open>j[key] = v\<close> replaces the value of a key that is present.
\<close>

datatype json =
    JInt int
  | JUnsigned nat
  | JFloat c_float
  | JString string
  | JArray "json list"
  | JObject "(string \<times> json) list"

fun json_set :: "string \<Rightarrow> json \<Rightarrow> (string \<times> json) list \<Rightarrow> (string \<times> json) list" where
  "json_set k v [] = [(k, v)]"
| "json_set k v ((k', v') # rest) =
     (if k = k' then (k, v) # rest
      else if k < k' then (k, v) # (k', v') # rest
      else (k', v') # json_set k v rest)"

text \<open>
  What the code takes from its libraries without fixing it: how the JSON library
  prints a floating-point number and escapes the content of a string, and the order in
  which a \<^verbatim>\<open>std::unordered_map\<close> with the given insertion history is iterated.
\<close>

record stdlib =
  float_repr :: "c_float \<Rightarrow> string"
  escape :: "string \<Rightarrow> string"
  iteration :: "(string \<times> int) list \<Rightarrow> (string \<times> int) list"


fun join :: "string \<Rightarrow> string list \<Rightarrow> string" where
  "join sep [] = []"
| "join sep [x] = x"
| "join sep (x # y # ys) = x @ sep @ join sep (y # ys)"

definition quoted :: "stdlib \<Rightarrow> string \<Rightarrow> string" where
  "quoted lib s = [CHR 0x22] @ escape lib s @ [CHR 0x22]"

text \<open>
  \<^verbatim>\<open>j.dump()\<close> with its default arguments: the compact form, without white space. The
  library refuses a string that is not well-formed UTF-8 by an exception; class names
  are taken to be well-formed, so that \<open>dump\<close> is total.
\<close>

fun dump :: "stdlib \<Rightarrow> json \<Rightarrow> string" where
  "dump lib (JInt i) = to_string i"
| "dump lib (JUnsigned n) = to_string_nat n"
| "dump lib (JFloat x) = float_repr lib x"
| "dump lib (JString s) = quoted lib s"
| "dump lib (JArray vs) = ''['' @ join '','' (map (dump lib) vs) @ '']''"
| "dump lib (JObject kvs) =
     ''{'' @ join '','' (map (\<lambda>kv. quoted lib (fst kv) @ '':'' @ dump lib (snd kv)) kvs) @ ''}''"

text \<open>
  \<^verbatim>\<open>class_counts[name]++\<close> on a \<^verbatim>\<open>std::unordered_map<std::string, int>\<close>: a key that is
  absent is inserted with the value 0 first. The map is kept as its entries in the
  order of their insertion.
\<close>

fun increment :: "string \<Rightarrow> (string \<times> int) list \<Rightarrow> (string \<times> int) list" where
  "increment k [] = [(k, 0 + 1)]"
| "increment k ((k', n) # rest) =
     (if k = k' then (k', n + 1) # rest else (k', n) # increment k rest)"

subsection \<open>publisher.cpp: the formatters\<close>

text \<open>
  The objects of the \<^verbatim>\<open>MessageFormatter\<close> hierarchy of publisher.h with their data
  members: \<^verbatim>\<open>suppress_empty\<close> for the two plain JSON formatters, \<^verbatim>\<open>class_mapping\<close> for
  the classes derived from \<^verbatim>\<open>MappedMessageFormatter\<close>.
\<close>

datatype MessageFormatter =
    JsonMessageFormatter bool
  | BSVariableMessageFormatter
  | FacesJsonMessageFormatter "(string \<times> string) list"
  | FacesBSMessageFormatter "(string \<times> string) list"
  | SelectiveJsonMessageFormatter "(string \<times> string) list"
  | SelectiveBSMessageFormatter "(string \<times> string) list"
  | FullJsonMessageFormatter bool

text \<open>The two constructors that fill the mapping (publisher.cpp, lines 78-80, 104-106).\<close>

definition new_FacesJsonMessageFormatter :: MessageFormatter where
  "new_FacesJsonMessageFormatter = FacesJsonMessageFormatter [(''person'', ''faces'')]"


text \<open>
  The counting loop of lines 138-144 and 160-166, over the extracted detections, with
  the renaming of their class names; and the loop that copies the counts into the JSON
  object (lines 32-34, 147-149).
\<close>

definition count_classes ::
  "(string \<Rightarrow> string) \<Rightarrow> object_detect_result list \<Rightarrow> (string \<times> int) list" where
  "count_classes rename ds =
     foldl (\<lambda>class_counts detection. increment (rename (name detection)) class_counts)
       [(''person'', 0)] ds"

definition add_counts :: "(string \<times> int) list \<Rightarrow> (string \<times> json) list \<Rightarrow> (string \<times> json) list" where
  "add_counts entries j = foldl (\<lambda>j entry. json_set (fst entry) (JInt (snd entry)) j) j entries"

text \<open>\<^verbatim>\<open>JsonMessageFormatter::formatMessage\<close> (lines 9-37): the JSON value, then its text.\<close>

definition Json_class_counts :: "InferenceResult \<Rightarrow> (string \<times> int) list" where
  "Json_class_counts result =
     foldl (\<lambda>class_counts detection.
              if (float_le_zero (prop' detection) \<or> cls_id detection < 0) \<or>
                 \<not> isClassSelected (cls_id detection) (selected_classes result)
              then class_counts
              else increment (name detection) class_counts)
       [(''person'', 0)] (visited result)"

definition Json_value :: "stdlib \<Rightarrow> InferenceResult \<Rightarrow> (string \<times> json) list" where
  "Json_value lib result =
     add_counts (iteration lib (Json_class_counts result))
       (json_set ''timestamp'' (JInt (timestamp result)) [])"

definition Json_formatMessage :: "stdlib \<Rightarrow> bool \<Rightarrow> InferenceResult \<Rightarrow> string" where
  "Json_formatMessage lib suppress_empty result = dump lib (JObject (Json_value lib result))"

text \<open>\<^verbatim>\<open>MappedMessageFormatter::extractSelectedClasses\<close> (lines 40-58).\<close>

definition extractSelectedClasses :: "InferenceResult \<Rightarrow> object_detect_result list" where
  "extractSelectedClasses result =
     foldl (\<lambda>selected_detections detection.
              if float_le_zero (prop' detection) \<or> cls_id detection < 0 then selected_detections
              else if isClassSelected (cls_id detection) (selected_classes result)
                then selected_detections @ [detection]
                else selected_detections)
       [] (visited result)"

text \<open>\<^verbatim>\<open>MappedMessageFormatter::mapClassName\<close> (lines 60-66).\<close>

definition mapClassName :: "(string \<times> string) list \<Rightarrow> string \<Rightarrow> string" where
  "mapClassName class_mapping original_name =
     (case map_of class_mapping original_name of Some mapped \<Rightarrow> mapped | None \<Rightarrow> original_name)"

text \<open>\<^verbatim>\<open>BSVariableMessageFormatter::formatMessage\<close> (lines 69-75).\<close>

definition BSVariable_formatMessage :: "InferenceResult \<Rightarrow> string" where
  "BSVariable_formatMessage result =
     ''detection_count:'' @ to_string (count (detections result)) @ ''!!'' @
     ''timestamp:'' @ to_string (timestamp result)"

text \<open>The counting loop shared by the two faces formatters (lines 87-93, 111-117).\<close>

definition people_count :: "InferenceResult \<Rightarrow> int" where
  "people_count result =
     foldl (\<lambda>n detection. if cls_id detection = 0 then n + 1 else n) 0 (visited result)"

text \<open>\<^verbatim>\<open>FacesJsonMessageFormatter::formatMessage\<close> (lines 83-101).\<close>

definition FacesJson_formatMessage :: "stdlib \<Rightarrow> InferenceResult \<Rightarrow> string" where
  "FacesJson_formatMessage lib result =
     dump lib (JObject
       (json_set ''timestamp'' (JInt (timestamp result))
         (json_set ''faces_attending'' (JInt (people_count result))
           (json_set ''faces_in_frame_total'' (JInt (people_count result)) []))))"

text \<open>\<^verbatim>\<open>FacesBSMessageFormatter::formatMessage\<close> (lines 109-125).\<close>

definition FacesBS_formatMessage :: "InferenceResult \<Rightarrow> string" where
  "FacesBS_formatMessage result =
     ''faces_in_frame_total:'' @ to_string (people_count result) @ ''!!'' @
     ''faces_attending:'' @ to_string (people_count result) @ ''!!'' @
     ''timestamp:'' @ to_string (timestamp result)"

text \<open>\<^verbatim>\<open>SelectiveJsonMessageFormatter::formatMessage\<close> (lines 128-152).\<close>

definition Selective_class_counts ::
  "(string \<times> string) list \<Rightarrow> InferenceResult \<Rightarrow> (string \<times> int) list" where
  "Selective_class_counts class_mapping result =
     count_classes (mapClassName class_mapping) (extractSelectedClasses result)"

definition SelectiveJson_value ::
  "stdlib \<Rightarrow> (string \<times> string) list \<Rightarrow> InferenceResult \<Rightarrow> (string \<times> json) list" where
  "SelectiveJson_value lib class_mapping result =
     add_counts (iteration lib (Selective_class_counts class_mapping result))
       (json_set ''timestamp'' (JInt (timestamp result)) [])"

definition SelectiveJson_formatMessage ::
  "stdlib \<Rightarrow> (string \<times> string) list \<Rightarrow> InferenceResult \<Rightarrow> string" where
  "SelectiveJson_formatMessage lib class_mapping result =
     dump lib (JObject (SelectiveJson_value lib class_mapping result))"

text \<open>
  \<^verbatim>\<open>SelectiveBSMessageFormatter::formatMessage\<close> (lines 155-187). The loop of lines
  172-178 carries the message built so far and the flag \<^verbatim>\<open>first\<close>.
\<close>

definition bs_field :: "string \<times> int \<Rightarrow> string" where
  "bs_field entry = fst entry @ '':'' @ to_string (snd entry)"

definition bs_append :: "string \<times> bool \<Rightarrow> string \<times> int \<Rightarrow> string \<times> bool" where
  "bs_append state entry =
     (let message = (if \<not> snd state then fst state @ ''!!'' else fst state)
      in (message @ bs_field entry, False))"

definition SelectiveBS_formatMessage ::
  "stdlib \<Rightarrow> (string \<times> string) list \<Rightarrow> InferenceResult \<Rightarrow> string" where
  "SelectiveBS_formatMessage lib class_mapping result =
     (let class_counts = Selective_class_counts class_mapping result;
          message = fst (foldl bs_append ([], True) (iteration lib class_counts));
          message = (if message \<noteq> [] then message @ ''!!'' else message)
      in message @ ''timestamp:'' @ to_string (timestamp result))"

text \<open>\<^verbatim>\<open>FullJsonMessageFormatter::formatMessage\<close> (lines 222-265).\<close>

definition detection_json :: "object_detect_result \<Rightarrow> json" where
  "detection_json detection =
     JObject
       (json_set ''bbox''
          (JObject
            (json_set ''bottom'' (JInt (bottom (box detection)))
              (json_set ''right'' (JInt (right (box detection)))
                (json_set ''top'' (JInt (top' (box detection)))
                  (json_set ''left'' (JInt (left (box detection))) [])))))
          (json_set ''confidence'' (JFloat (prop' detection))
            (json_set ''class_name'' (JString (name detection))
              (json_set ''class_id'' (JInt (cls_id detection)) []))))"

definition FullJson_detections :: "InferenceResult \<Rightarrow> json list" where
  "FullJson_detections result =
     foldl (\<lambda>dets detection.
              if (float_le_zero (prop' detection) \<or> cls_id detection < 0) \<or>
                 \<not> isClassSelected (cls_id detection) (selected_classes result)
              then dets
              else dets @ [detection_json detection])
       [] (visited result)"

definition FullJson_value :: "InferenceResult \<Rightarrow> (string \<times> json) list" where
  "FullJson_value result =
     json_set ''detection_count'' (JUnsigned (length (FullJson_detections result)))
       (json_set ''detections'' (JArray (FullJson_detections result))
         (json_set ''timestamp'' (JInt (timestamp result)) []))"

definition FullJson_formatMessage :: "stdlib \<Rightarrow> bool \<Rightarrow> InferenceResult \<Rightarrow> string" where
  "FullJson_formatMessage lib suppress_empty result =
     (if suppress_empty \<and> FullJson_detections result = [] then []
      else dump lib (JObject (FullJson_value result)))"

text \<open>The virtual call \<^verbatim>\<open>formatter->formatMessage(result)\<close>.\<close>

fun formatMessage :: "stdlib \<Rightarrow> MessageFormatter \<Rightarrow> InferenceResult \<Rightarrow> string" where
  "formatMessage lib (JsonMessageFormatter suppress_empty) r = Json_formatMessage lib suppress_empty r"
| "formatMessage lib BSVariableMessageFormatter r = BSVariable_formatMessage r"
| "formatMessage lib (FacesJsonMessageFormatter class_mapping) r = FacesJson_formatMessage lib r"
| "formatMessage lib (FacesBSMessageFormatter class_mapping) r = FacesBS_formatMessage r"
| "formatMessage lib (SelectiveJsonMessageFormatter class_mapping) r =
     SelectiveJson_formatMessage lib class_mapping r"
| "formatMessage lib (SelectiveBSMessageFormatter class_mapping) r =
     SelectiveBS_formatMessage lib class_mapping r"
| "formatMessage lib (FullJsonMessageFormatter suppress_empty) r =
     FullJson_formatMessage lib suppress_empty r"

subsection \<open>file_transport.cpp: the file transport\<close>

text \<open>
  The file system is a state \<open>'fs\<close> with the operations the transport calls on it; each
  returns what the call reports and the state after it. \<open>parent_path\<close> is the pure
  path computation of \<^verbatim>\<open>std::filesystem::path\<close>. \<open>fs_exists\<close> is the overload of
  \<^verbatim>\<open>std::filesystem::exists\<close> without an error code: \<open>None\<close> when it throws
  \<^verbatim>\<open>filesystem_error\<close>. \<open>ofstream_write\<close> stands for writing and flushing the data and
  returns \<^verbatim>\<open>file.fail()\<close>; \<open>posix_open\<close> returns the descriptor, or \<open>None\<close> for \<^verbatim>\<open>-1\<close>;
  \<open>fsync\<close> returns whether the call gave 0; \<open>rename\<close> returns whether an error code was
  set.
\<close>

record 'fs filesystem =
  parent_path :: "string \<Rightarrow> string"
  fs_exists :: "string \<Rightarrow> 'fs \<Rightarrow> bool option"
  create_directories :: "string \<Rightarrow> 'fs \<Rightarrow> bool \<times> 'fs"
  ofstream_open :: "string \<Rightarrow> 'fs \<Rightarrow> bool \<times> 'fs"
  ofstream_write :: "string \<Rightarrow> string \<Rightarrow> 'fs \<Rightarrow> bool \<times> 'fs"
  ofstream_close :: "string \<Rightarrow> 'fs \<Rightarrow> 'fs"
  posix_open :: "string \<Rightarrow> 'fs \<Rightarrow> int option \<times> 'fs"
  fsync :: "int \<Rightarrow> 'fs \<Rightarrow> bool \<times> 'fs"
  posix_close :: "int \<Rightarrow> 'fs \<Rightarrow> 'fs"
  rename :: "string \<Rightarrow> string \<Rightarrow> 'fs \<Rightarrow> bool \<times> 'fs"
  remove :: "string \<Rightarrow> 'fs \<Rightarrow> 'fs"

record FileTransport =
  filepath :: string
  enabled :: bool


text \<open>
  \<^verbatim>\<open>FileTransport::send\<close> (lines 24-79), from its end: the renaming (lines 63-73), the
  reopening with \<^verbatim>\<open>fsync\<close> (lines 51-60), and the function itself. A call returns its
  result, the object and the file system after it. The stream has no exception mask
  and the file-system calls take an error code, so every failure is a returned value
  and the \<^verbatim>\<open>catch\<close> clause, which returns false as well, has no branch of its own.
\<close>

definition send_rename ::
  "'fs filesystem \<Rightarrow> FileTransport \<Rightarrow> string \<Rightarrow> 'fs \<Rightarrow> bool \<times> FileTransport \<times> 'fs" where
  "send_rename fs this temp_filepath w =
     (case rename fs temp_filepath (filepath this) w of
        (ec, w') \<Rightarrow> if ec then (False, this, remove fs temp_filepath w') else (True, this, w'))"

definition send_fsync ::
  "'fs filesystem \<Rightarrow> FileTransport \<Rightarrow> string \<Rightarrow> 'fs \<Rightarrow> bool \<times> FileTransport \<times> 'fs" where
  "send_fsync fs this temp_filepath w =
     (case posix_open fs temp_filepath w of
        (fd, w1) \<Rightarrow>
          (case fd of
             None \<Rightarrow> send_rename fs this temp_filepath w1
           | Some d \<Rightarrow>
               (case fsync fs d w1 of
                  (synced, w2) \<Rightarrow>
                    (if \<not> synced then (False, this, posix_close fs d w2)
                     else send_rename fs this temp_filepath (posix_close fs d w2)))))"

definition FileTransport_send ::
  "'fs filesystem \<Rightarrow> FileTransport \<Rightarrow> string \<Rightarrow> 'fs \<Rightarrow> bool \<times> FileTransport \<times> 'fs" where
  "FileTransport_send fs this data w =
     (if \<not> enabled this then (False, this, w)
      else
        (let temp_filepath = filepath this @ ''.tmp'' in
         (case ofstream_open fs temp_filepath w of
            (is_open, w1) \<Rightarrow>
              (if \<not> is_open then (False, this, w1)
               else
                 (case ofstream_write fs temp_filepath data w1 of
                    (failed, w2) \<Rightarrow>
                      (if failed then (False, this, ofstream_close fs temp_filepath w2)
                       else send_fsync fs this temp_filepath
                              (ofstream_close fs temp_filepath w2)))))))"

text \<open>\<^verbatim>\<open>FileTransport::isConnected\<close> (lines 81-83).\<close>

definition FileTransport_isConnected :: "FileTransport \<Rightarrow> bool" where
  "FileTransport_isConnected this = enabled this"



subsection \<open>publisher.cpp: the publisher\<close>

text \<open>
  Modelled from the spec: the abstract class \<^verbatim>\<open>Transport\<close> (transport.h) is not among the
  sources. The spec gives it two operations, \<^verbatim>\<open>send(data)\<close> returning success and
  \<^verbatim>\<open>is_connected()\<close>; the publisher calls them as \<^verbatim>\<open>send\<close> and \<^verbatim>\<open>isConnected\<close>. A
  transport acts on a state \<open>'w\<close>: its own members and the outside it writes to.
\<close>

record 'w Transport =
  send :: "string \<Rightarrow> 'w \<Rightarrow> bool \<times> 'w"
  isConnected :: "'w \<Rightarrow> bool"

definition FileTransport_Transport :: "'fs filesystem \<Rightarrow> (FileTransport \<times> 'fs) Transport" where
  "FileTransport_Transport fs =
     \<lparr>send = (\<lambda>data (this, w).
                case FileTransport_send fs this data w of (ok, this', w') \<Rightarrow> (ok, (this', w'))),
      isConnected = (\<lambda>(this, w). FileTransport_isConnected this)\<rparr>"

text \<open>
  The members of \<^verbatim>\<open>Publisher\<close> (publisher.h, lines 116-121). The two references, to the
  queue and to the running flag, are the identities of the objects referred to.
\<close>

record 'w Publisher =
  transport :: "'w Transport"
  resultQueue :: nat
  running :: nat
  target_mps :: int
  formatter :: MessageFormatter

text \<open>
  The constructors (publisher.cpp, lines 190-201 and 268-276). The UDP transport is
  not among the sources; \<open>make_UDPTransport\<close> stands for its construction.
\<close>

definition new_Publisher ::
  "'w Transport \<Rightarrow> nat \<Rightarrow> nat \<Rightarrow> MessageFormatter \<Rightarrow> int \<Rightarrow> 'w Publisher" where
  "new_Publisher transport_arg queue isRunning formatter_arg messages_per_second =
     \<lparr>transport = transport_arg, resultQueue = queue, running = isRunning,
      target_mps = messages_per_second, formatter = formatter_arg\<rparr>"

definition new_UDPPublisher ::
  "(string \<Rightarrow> int \<Rightarrow> 'w Transport) \<Rightarrow> string \<Rightarrow> int \<Rightarrow> nat \<Rightarrow> nat \<Rightarrow> MessageFormatter \<Rightarrow> int \<Rightarrow>
   'w Publisher" where
  "new_UDPPublisher make_UDPTransport ip port queue isRunning formatter_arg messages_per_second =
     new_Publisher (make_UDPTransport ip port) queue isRunning formatter_arg messages_per_second"

text \<open>
  \<^verbatim>\<open>1000 / target_mps\<close> on C++ \<^verbatim>\<open>int\<close>: the quotient truncated towards zero, and no value
  when the divisor is zero (the behaviour is undefined).
\<close>

definition int_divide :: "int \<Rightarrow> int \<Rightarrow> int option" where
  "int_divide a b = (if b = 0 then None else Some (sgn a * sgn b * (\<bar>a\<bar> div \<bar>b\<bar>)))"

text \<open>
  What a run of \<^verbatim>\<open>Publisher::operator()\<close> (lines 203-219) does, in order: the calls of
  \<^verbatim>\<open>transport->send\<close> with their argument, the lines written to \<^verbatim>\<open>std::cerr\<close>, the sleeps
  with their duration in milliseconds. The run is over the results that the calls of
  \<^verbatim>\<open>resultQueue.pop\<close> deliver before \<^verbatim>\<open>pop\<close> returns false (the queue is not among the
  sources); it ends there, or at a division by zero.
\<close>

datatype effect = Send string | Cerr string | Sleep_for int

datatype run_end = Queue_closed | Division_by_zero

fun Publisher_run ::
  "stdlib \<Rightarrow> 'w Publisher \<Rightarrow> InferenceResult list \<Rightarrow> 'w \<Rightarrow> effect list \<times> 'w \<times> run_end" where
  "Publisher_run lib this [] w = ([], w, Queue_closed)"
| "Publisher_run lib this (result # popped) w =
     (if \<not> isConnected (transport this) w then
        (case Publisher_run lib this popped w of
           (effects, w', e) \<Rightarrow> (Cerr ''Transport not connected, skipping message'' # effects, w', e))
      else
        (let message = formatMessage lib (formatter this) result in
         (case send (transport this) message w of
            (sent, w1) \<Rightarrow>
              (let effects1 =
                     Send message #
                     (if \<not> sent then [Cerr ''Failed to send message via transport''] else [])
               in (case int_divide 1000 (target_mps this) of
                     None \<Rightarrow> (effects1, w1, Division_by_zero)
                   | Some ms \<Rightarrow>
                       (case Publisher_run lib this popped w1 of
                          (effects, w', e) \<Rightarrow> (effects1 @ Sleep_for ms # effects, w', e)))))))"

subsection \<open>main.cpp: the wiring of the pipeline\<close>

text \<open>
  The two global objects of main.cpp (lines 26-27), by identity, and the publishers
  that \<^verbatim>\<open>main\<close> constructs: one in the single-shot mode for an image file (lines
  141-150), three in the continuous mode for a video device (lines 174-200); the file
  publisher is constructed with the same arguments in both. The inference thread is
  constructed on \<^verbatim>\<open>resultQueue\<close> as well (lines 131-138, 164-171).
\<close>

definition global_running :: nat where
  "global_running = 0"

definition global_resultQueue :: nat where
  "global_resultQueue = 1"

definition main_file_publisher :: "'w Transport \<Rightarrow> bool \<Rightarrow> 'w Publisher" where
  "main_file_publisher file_transport suppress_empty =
     new_Publisher file_transport global_resultQueue global_running
       (JsonMessageFormatter suppress_empty) 1"

definition main_file_publishers :: "'w Transport \<Rightarrow> bool \<Rightarrow> 'w Publisher list" where
  "main_file_publishers file_transport suppress_empty =
     [main_file_publisher file_transport suppress_empty]"

definition main_video_publishers ::
  "'w Transport \<Rightarrow> (string \<Rightarrow> int \<Rightarrow> 'w Transport) \<Rightarrow> bool \<Rightarrow> 'w Publisher list" where
  "main_video_publishers file_transport make_UDPTransport suppress_empty =
     [main_file_publisher file_transport suppress_empty,
      new_UDPPublisher make_UDPTransport ''127.0.0.1'' 5002 global_resultQueue global_running
        (SelectiveJsonMessageFormatter []) 1,
      new_UDPPublisher make_UDPTransport ''127.0.0.1'' 5000 global_resultQueue global_running
        (SelectiveBSMessageFormatter []) 1]"

definition main_inference_queue :: nat where
  "main_inference_queue = global_resultQueue"

subsection \<open>The vocabulary of the specification\<close>



definition valid_or_nan :: "object_detect_result \<Rightarrow> bool" where
  "valid_or_nan d = ((float_gt_zero (prop' d) \<or> prop' d = NaN) \<and> cls_id d \<ge> 0)"

definition kept_selected :: "InferenceResult \<Rightarrow> object_detect_result list" where
  "kept_selected r =
     filter (\<lambda>d. valid_or_nan d \<and> isClassSelected (cls_id d) (selected_classes r)) (visited r)"


subsection \<open>Sample inputs\<close>

text \<open>
  Concrete values on which the theorems below are instantiated. The sample library
  iterates a hash map in the reverse of the insertion order, leaves strings as they
  are, and prints every floating-point number as the confidence of the sample
  detections. \<open>nan_result\<close> holds one detection of a person whose confidence is NaN. The
  recording transport is always connected, accepts every message and
  keeps the messages it was given; the refusing file system has no directory and
  creates none, and records every call made on it.
\<close>

definition sample_lib :: stdlib where
  "sample_lib = \<lparr>float_repr = (\<lambda>x. ''0.9''), escape = (\<lambda>s. s), iteration = rev\<rparr>"






definition empty_result :: InferenceResult where
  "empty_result =
     \<lparr>timestamp = 1746732409, detections = \<lparr>count = 0, results = []\<rparr>, selected_classes = [0]\<rparr>"




definition recording_transport :: "string list Transport" where
  "recording_transport = \<lparr>send = (\<lambda>data w. (True, w @ [data])), isConnected = (\<lambda>w. True)\<rparr>"


section \<open>Properties of the model\<close>

subsection \<open>Searching a vector\<close>

lemma std_find_le: "std_find xs v \<le> length xs"
  by (induction xs) auto

lemma std_find_end_iff: "std_find xs v = length xs \<longleftrightarrow> v \<notin> set xs"
proof (induction xs)
  case Nil
  show ?case by simp
next
  case (Cons x xs)
  have "std_find xs v \<le> length xs" by (rule std_find_le)
  with Cons show ?case by auto
qed

subsection \<open>The loops of the formatters, in closed form\<close>





lemma foldl_skip_filter:
  "foldl (\<lambda>a d. if P d then a else g a d) a ds = foldl g a (filter (\<lambda>d. \<not> P d) ds)"
  by (induction ds arbitrary: a) auto

lemma foldl_snoc_map: "foldl (\<lambda>acc d. acc @ [f d]) acc ds = acc @ map f ds"
  by (induction ds arbitrary: acc) auto


lemma float_le_zero_iff: "float_le_zero x \<longleftrightarrow> \<not> (float_gt_zero x \<or> x = NaN)"
  by (cases x) auto

lemma not_skipped_iff: "\<not> (float_le_zero (prop' d) \<or> cls_id d < 0) \<longleftrightarrow> valid_or_nan d"
  by (auto simp: valid_or_nan_def float_le_zero_iff)


lemma skipped_iff_not_kept_selected:
  "(\<lambda>d. \<not> ((float_le_zero (prop' d) \<or> cls_id d < 0) \<or> \<not> isClassSelected (cls_id d) sel)) =
   (\<lambda>d. valid_or_nan d \<and> isClassSelected (cls_id d) sel)"
  using not_skipped_iff by (auto simp: fun_eq_iff)

lemma FullJson_detections_eq: "FullJson_detections r = map detection_json (kept_selected r)"
  unfolding FullJson_detections_def kept_selected_def
  by (simp only: foldl_skip_filter skipped_iff_not_kept_selected foldl_snoc_map append_Nil)






subsection \<open>JSON objects and their text\<close>

lemma to_string_0: "to_string 0 = ''0''"
  by code_simp





subsection \<open>The map of counts\<close>









subsection \<open>The BrightScript message\<close>









subsection \<open>The publisher and the file transport\<close>




lemma Publisher_run_connected:
  assumes "isConnected (transport p) w"
  shows "\<exists>effects. fst (Publisher_run lib p (r # popped) w) =
           Send (formatMessage lib (formatter p) r) # effects"
  using assms by (simp add: Let_def split: prod.splits option.splits)

lemma Publisher_run_disabled_FileTransport:
  assumes "\<not> enabled this" and "transport p = FileTransport_Transport fs"
  shows "Publisher_run lib p popped (this, w) =
           (replicate (length popped) (Cerr ''Transport not connected, skipping message''),
            (this, w), Queue_closed)"
  using assms
  by (induction popped)
     (simp_all add: FileTransport_Transport_def FileTransport_isConnected_def)

subsection \<open>Evaluating the samples\<close>

lemma digit_char_values:
  "digit_char 0 = CHR ''0''" "digit_char (Suc 0) = CHR ''1''" "digit_char 2 = CHR ''2''"
  "digit_char 3 = CHR ''3''" "digit_char 4 = CHR ''4''" "digit_char 5 = CHR ''5''"
  "digit_char 6 = CHR ''6''" "digit_char 7 = CHR ''7''" "digit_char 8 = CHR ''8''"
  "digit_char 9 = CHR ''9''"
  by code_simp+

lemma to_string_nat_numeral:
  "to_string_nat (numeral k) =
     (if numeral k < (10::nat) then [digit_char (numeral k)]
      else to_string_nat (numeral k div 10) @ [digit_char (numeral k mod 10)])"
  by (rule to_string_nat.simps)

lemma to_string_nat_Suc_0: "to_string_nat (Suc 0) = ''1''"
  by (subst to_string_nat.simps) (simp add: digit_char_values)

lemma to_string_sample: "to_string 1746732409 = ''1746732409''"
  by (simp add: to_string_def to_string_nat_numeral to_string_nat_Suc_0 digit_char_values)


lemma visited_empty_result: "visited empty_result = []"
  by (simp add: visited_def empty_result_def)





lemma kept_selected_empty_result: "kept_selected empty_result = []"
  by (simp add: kept_selected_def visited_empty_result)












lemma BSVariable_empty_result:
  "BSVariable_formatMessage empty_result = ''detection_count:0!!timestamp:1746732409''"
  by (simp add: BSVariable_formatMessage_def empty_result_def to_string_sample to_string_0)

lemma FullJson_empty_result: "FullJson_formatMessage lib True empty_result = []"
  by (simp add: FullJson_formatMessage_def FullJson_detections_eq kept_selected_empty_result)

section \<open>The claims\<close>




text \<open>
  Claim C2. The claim says that a publisher whose formatter returns the empty string
  does not call \<^verbatim>\<open>send\<close> in that cycle. The loop has no such test: with a connected
  transport it passes whatever the formatter returned to \<^verbatim>\<open>send\<close>. Here the FullJson
  formatter with \<^verbatim>\<open>suppress_empty\<close> set returns the empty string for a result without
  detections, and the publisher sends that empty string and then sleeps.
\<close>

theorem C2_publisher_sends_empty_message:
  "formatMessage sample_lib (FullJsonMessageFormatter True) empty_result = [] \<and>
   Publisher_run sample_lib
     (new_Publisher recording_transport global_resultQueue global_running
        (FullJsonMessageFormatter True) 1)
     [empty_result] [] =
   ([Send [], Sleep_for 1000], [[]], Queue_closed)"
  by (simp add: FullJson_empty_result new_Publisher_def recording_transport_def int_divide_def)

text \<open>
  Claim C3, as amended. Every publisher that \<^verbatim>\<open>main\<close> constructs, in either mode, is bound
  to the one global \<^verbatim>\<open>resultQueue\<close>, which is also the queue the inference thread
  writes to: there is no queue per publisher.
\<close>

theorem C3_one_shared_queue:
  "map resultQueue (main_video_publishers file_transport make_UDPTransport suppress_empty) =
     [global_resultQueue, global_resultQueue, global_resultQueue] \<and>
   map resultQueue (main_file_publishers file_transport suppress_empty) = [global_resultQueue] \<and>
   main_inference_queue = global_resultQueue"
  by (simp add: main_video_publishers_def main_file_publishers_def main_file_publisher_def
      new_UDPPublisher_def new_Publisher_def main_inference_queue_def)

text \<open>
  The claim as stated fails: the queues of the three publishers of the continuous mode
  are not pairwise distinct.
\<close>

theorem C3_counterexample:
  "\<not> distinct (map resultQueue
      (main_video_publishers recording_transport (\<lambda>ip port. recording_transport) False))"
  by (simp add: main_video_publishers_def main_file_publisher_def new_UDPPublisher_def
      new_Publisher_def)

text \<open>
  Claim C4, as amended. Constructing a publisher never fails and checks nothing: the
  rate it is given becomes \<^verbatim>\<open>target_mps\<close> as it is, whatever its sign. The publishers
  that \<^verbatim>\<open>main\<close> constructs are all given the rate 1.
\<close>

theorem C4_rate_stored_unchecked:
  "target_mps (new_Publisher transport_arg queue isRunning formatter_arg messages_per_second) =
     messages_per_second \<and>
   target_mps (new_UDPPublisher make_UDPTransport ip port queue isRunning formatter_arg
      messages_per_second) = messages_per_second \<and>
   map target_mps (main_video_publishers file_transport make_UDPTransport suppress_empty) =
     [1, 1, 1] \<and>
   map target_mps (main_file_publishers file_transport suppress_empty) = [1]"
  by (simp add: main_video_publishers_def main_file_publishers_def main_file_publisher_def
      new_UDPPublisher_def new_Publisher_def)

text \<open>
  The claim as stated fails: a publisher is constructed with the rate 0, and with the
  rate -5; the one with rate 0 runs, sends its first message and then divides by zero.
\<close>

theorem C4_counterexample:
  "target_mps (new_Publisher recording_transport global_resultQueue global_running
      BSVariableMessageFormatter 0) = 0 \<and>
   target_mps (new_Publisher recording_transport global_resultQueue global_running
      BSVariableMessageFormatter (- 5)) = - 5 \<and>
   Publisher_run sample_lib
     (new_Publisher recording_transport global_resultQueue global_running
        BSVariableMessageFormatter 0)
     [empty_result] [] =
   ([Send ''detection_count:0!!timestamp:1746732409''],
    [''detection_count:0!!timestamp:1746732409''], Division_by_zero)"
  by (simp add: new_Publisher_def recording_transport_def BSVariable_empty_result
      int_divide_def Let_def)


text \<open>
  Claim C5. \<^verbatim>\<open>isClassSelected\<close> answers true for every class id when the filter is
  empty, and for a non-empty filter (written \<open>c # cs\<close>) it answers true exactly when
  the id is one of the filter's elements.
\<close>

theorem C5_isClassSelected:
  "isClassSelected class_id [] \<and>
   (isClassSelected class_id (c # cs) \<longleftrightarrow> class_id \<in> set (c # cs))"
  unfolding isClassSelected_def using std_find_end_iff [of "c # cs" class_id] by simp








text \<open>
  Claim C9. Whenever \<^verbatim>\<open>main\<close> gets past the resolution of the class filter, the filter
  it hands on contains the class id 0: it is the parsed selection (empty when
  \<^verbatim>\<open>--classes\<close> is absent) with 0 appended if 0 was not in it.
\<close>

theorem C9_class_0_always_selected:
  assumes "resolve_selected_classes classes_str labels_file = Inr selected"
  shows "0 \<in> set selected \<and>
         (let parsed = (if classes_str = [] then []
                        else parseClassNames classes_str (loadCocoClassMapping labels_file))
          in selected = (if 0 \<in> set parsed then parsed else parsed @ [0]))"
proof -
  have ensure: "ensure_class_0 xs = (if 0 \<in> set xs then xs else xs @ [0])" for xs
    by (simp add: ensure_class_0_def std_find_end_iff)
  from assms show ?thesis
    by (auto simp: resolve_selected_classes_def ensure Let_def split: if_splits)
qed

theorem C9_witness:
  "resolve_selected_classes ''car'' (Some [''person'', ''bicycle'', ''car'']) = Inr [2, 0] \<and>
   resolve_selected_classes [] None = Inr [0] \<and>
   (0::int) \<in> set [2, 0]"
proof -
  have r1: "resolve_selected_classes ''car'' (Some [''person'', ''bicycle'', ''car'']) = Inr [2, 0]"
    by code_simp
  have r2: "resolve_selected_classes [] None = Inr [0]"
    by code_simp
  from C9_class_0_always_selected [OF r1] have "(0::int) \<in> set [2, 0]" by blast
  with r1 r2 show ?thesis by blast
qed



end
